theory Spec2Isabelle
  imports Complex_Main
begin

section \<open>Numbers and errors\<close>

text \<open>
  The library computes with Python floats and numpy \<open>float64\<close> values. A finite value is
  modelled by the real number it stands for (rounding is not modelled); the three
  non-finite results that numpy arithmetic produces where real arithmetic is undefined
  are kept as values of their own, because numpy returns them (with a warning) instead of
  raising. Every zero divisor in the code below is an integer zero or a square root, so a
  zero divisor is taken as \<open>+0\<close>.
\<close>

datatype npfloat = Fin real | PInf | NInf | NaN

instantiation npfloat :: "{plus, minus, uminus, times, inverse, abs, ord}"
begin

fun uminus_npfloat :: "npfloat \<Rightarrow> npfloat" where
  "uminus_npfloat (Fin a) = Fin (- a)"
| "uminus_npfloat PInf = NInf"
| "uminus_npfloat NInf = PInf"
| "uminus_npfloat NaN = NaN"

fun plus_npfloat :: "npfloat \<Rightarrow> npfloat \<Rightarrow> npfloat" where
  "plus_npfloat (Fin a) (Fin b) = Fin (a + b)"
| "plus_npfloat NaN _ = NaN"
| "plus_npfloat _ NaN = NaN"
| "plus_npfloat PInf NInf = NaN"
| "plus_npfloat NInf PInf = NaN"
| "plus_npfloat PInf _ = PInf"
| "plus_npfloat _ PInf = PInf"
| "plus_npfloat NInf _ = NInf"
| "plus_npfloat _ NInf = NInf"

definition minus_npfloat :: "npfloat \<Rightarrow> npfloat \<Rightarrow> npfloat" where
  "minus_npfloat a b = a + (- b)"

fun times_npfloat :: "npfloat \<Rightarrow> npfloat \<Rightarrow> npfloat" where
  "times_npfloat (Fin a) (Fin b) = Fin (a * b)"
| "times_npfloat NaN _ = NaN"
| "times_npfloat _ NaN = NaN"
| "times_npfloat PInf (Fin b) = (if b = 0 then NaN else if 0 < b then PInf else NInf)"
| "times_npfloat NInf (Fin b) = (if b = 0 then NaN else if 0 < b then NInf else PInf)"
| "times_npfloat (Fin a) PInf = (if a = 0 then NaN else if 0 < a then PInf else NInf)"
| "times_npfloat (Fin a) NInf = (if a = 0 then NaN else if 0 < a then NInf else PInf)"
| "times_npfloat PInf PInf = PInf"
| "times_npfloat NInf NInf = PInf"
| "times_npfloat PInf NInf = NInf"
| "times_npfloat NInf PInf = NInf"

fun divide_npfloat :: "npfloat \<Rightarrow> npfloat \<Rightarrow> npfloat" where
  "divide_npfloat (Fin a) (Fin b) =
     (if b \<noteq> 0 then Fin (a / b)
      else if a = 0 then NaN else if 0 < a then PInf else NInf)"
| "divide_npfloat NaN _ = NaN"
| "divide_npfloat _ NaN = NaN"
| "divide_npfloat (Fin a) PInf = Fin 0"
| "divide_npfloat (Fin a) NInf = Fin 0"
| "divide_npfloat PInf (Fin b) = (if 0 \<le> b then PInf else NInf)"
| "divide_npfloat NInf (Fin b) = (if 0 \<le> b then NInf else PInf)"
| "divide_npfloat PInf PInf = NaN"
| "divide_npfloat PInf NInf = NaN"
| "divide_npfloat NInf PInf = NaN"
| "divide_npfloat NInf NInf = NaN"

definition inverse_npfloat :: "npfloat \<Rightarrow> npfloat" where
  "inverse_npfloat a = divide (Fin 1) a"

fun abs_npfloat :: "npfloat \<Rightarrow> npfloat" where
  "abs_npfloat (Fin a) = Fin \<bar>a\<bar>"
| "abs_npfloat PInf = PInf"
| "abs_npfloat NInf = PInf"
| "abs_npfloat NaN = NaN"

text \<open>Comparisons with NaN are false.\<close>

fun less_eq_npfloat :: "npfloat \<Rightarrow> npfloat \<Rightarrow> bool" where
  "less_eq_npfloat (Fin a) (Fin b) = (a \<le> b)"
| "less_eq_npfloat NaN _ = False"
| "less_eq_npfloat _ NaN = False"
| "less_eq_npfloat NInf _ = True"
| "less_eq_npfloat (Fin a) PInf = True"
| "less_eq_npfloat PInf PInf = True"
| "less_eq_npfloat (Fin a) NInf = False"
| "less_eq_npfloat PInf NInf = False"
| "less_eq_npfloat PInf (Fin b) = False"

fun less_npfloat :: "npfloat \<Rightarrow> npfloat \<Rightarrow> bool" where
  "less_npfloat (Fin a) (Fin b) = (a < b)"
| "less_npfloat NaN _ = False"
| "less_npfloat _ NaN = False"
| "less_npfloat PInf _ = False"
| "less_npfloat (Fin a) NInf = False"
| "less_npfloat NInf NInf = False"
| "less_npfloat NInf (Fin b) = True"
| "less_npfloat NInf PInf = True"
| "less_npfloat (Fin a) PInf = True"

instance ..

end

fun np_sqrt :: "npfloat \<Rightarrow> npfloat" where
  "np_sqrt (Fin a) = (if a < 0 then NaN else Fin (sqrt a))"
| "np_sqrt PInf = PInf"
| "np_sqrt NInf = NaN"
| "np_sqrt NaN = NaN"

definition np_minimum :: "npfloat \<Rightarrow> npfloat \<Rightarrow> npfloat" where
  \<comment> \<open>\<open>np.minimum\<close> propagates NaN\<close>
  "np_minimum a b = (if a = NaN \<or> b = NaN then NaN else if a \<le> b then a else b)"

definition np_maximum :: "npfloat \<Rightarrow> npfloat \<Rightarrow> npfloat" where
  "np_maximum a b = (if a = NaN \<or> b = NaN then NaN else if a \<le> b then b else a)"

definition np_sum :: "npfloat list \<Rightarrow> npfloat" where
  \<comment> \<open>\<open>np.sum\<close>; the sum of no elements is \<open>0.0\<close>\<close>
  "np_sum xs = foldl (+) (Fin 0) xs"

definition np_power :: "real \<Rightarrow> int \<Rightarrow> npfloat" where
  \<comment> \<open>a float raised to an integer exponent; \<open>0.0 ** 0 = 1.0\<close>, \<open>0.0 ** (-1) = inf\<close>\<close>
  "np_power a k = (if 0 \<le> k then Fin (a ^ nat k) else Fin 1 / Fin (a ^ nat (- k)))"

definition eps :: npfloat where
  \<comment> \<open>\<open>np.finfo(float).eps\<close>\<close>
  "eps = Fin (1 / 2 ^ 52)"

datatype py_error = ValueError | ZeroDivisionError | TypeError | OverflowError

section \<open>Ranks (\<open>scipy.stats.rankdata\<close> with method \<open>average\<close>)\<close>

text \<open>
  scipy sorts the vector, counts for each element the elements strictly below it and the
  elements not above it, and returns \<open>.5 * (count[dense] + count[dense - 1] + 1)\<close>: the
  mean of the 1-based positions that the element's tie group occupies.
\<close>

definition rankdata :: "real list \<Rightarrow> real list" where
  "rankdata a =
     map (\<lambda>x. (real (length (filter (\<lambda>y. y < x) a))
               + real (length (filter (\<lambda>y. y \<le> x) a)) + 1) / 2) a"

section \<open>nonparametric.py\<close>

subsection \<open>KruskalWallis.\_rank\<close>

text \<open>
  The design matrix has one row per observation, (group id, value); \<open>_rank\<close> stacks the
  rank of the value column as a third column.
\<close>

definition KruskalWallis_rank :: "(real \<times> real) list \<Rightarrow> (real \<times> real \<times> real) list" where
  "KruskalWallis_rank design_matrix =
     (let ranks = rankdata (map snd design_matrix)
      in map2 (\<lambda>row r. (fst row, snd row, r)) design_matrix ranks)"

subsection \<open>MannWhitney\<close>

text \<open>
  The constructor is modelled for \<open>group=None\<close> (with a group vector the two samples are
  taken from \<open>numpy_indexed.group_by\<close> and the same code follows), up to the attributes
  \<open>u_statistic\<close> and \<open>meanrank\<close>; sigma, z, p-value and effect size are numpy expressions
  over these and raise nothing.
\<close>

record mann_whitney =
  mw_y1 :: "real list"
  mw_y2 :: "real list"
  mw_n1 :: nat
  mw_n2 :: nat
  mw_n :: nat
  mw_continuity :: bool
  mw_ranks :: "real list"

definition MannWhitney_rank :: "real list \<Rightarrow> real list \<Rightarrow> nat \<Rightarrow> real list" where
  "MannWhitney_rank y1 y2 n1 =
     (let ranks = y1 @ y2;
          ranks = rankdata ranks;
          ranks = take n1 ranks
      in ranks)"

definition u :: "mann_whitney \<Rightarrow> real" where
  "u self =
     (let u1 = real (mw_n1 self * mw_n2 self) + real (mw_n1 self * (mw_n1 self + 1)) / 2
                 - sum_list (mw_ranks self);
          u2 = real (mw_n1 self * mw_n2 self) - u1
      in min u1 u2)"

definition mu :: "mann_whitney \<Rightarrow> real" where
  "mu self = real (mw_n1 self * mw_n2 self) / 2 + (1 / 2) * (if mw_continuity self then 1 else 0)"

record mann_whitney_result =
  mw_self :: mann_whitney
  u_statistic :: real
  meanrank :: real

definition MannWhitney_init ::
  "real list \<Rightarrow> real list option \<Rightarrow> bool \<Rightarrow> py_error + mann_whitney_result" where
  "MannWhitney_init y1 y2 continuity =
     (case y2 of
        None \<Rightarrow> Inl TypeError
      | Some y2' \<Rightarrow>
          (let n1 = length y1; n2 = length y2';
               self = \<lparr>mw_y1 = y1, mw_y2 = y2', mw_n1 = n1, mw_n2 = n2, mw_n = n1 + n2,
                       mw_continuity = continuity, mw_ranks = MannWhitney_rank y1 y2' n1\<rparr>
           in Inr \<lparr>mw_self = self, u_statistic = u self, meanrank = mu self\<rparr>))"

subsection \<open>WilcoxonTest\<close>

text \<open>
  The constructor is modelled up to the attribute \<open>V\<close>; z, p-value and effect size are
  numpy expressions over \<open>V\<close> and \<open>n\<close> and raise nothing.
\<close>

record wilcoxon_test =
  wt_paired :: bool
  wt_median :: real
  wt_y1 :: "real list"
  wt_n :: nat

definition v_statistic :: "wilcoxon_test \<Rightarrow> real" where
  "v_statistic self =
     (let y_median_signed =
            (if wt_paired self then wt_y1 self
             else map (\<lambda>y. y - wt_median self) (wt_y1 self));
          y_median_unsigned = map abs y_median_signed;
          ranks_signed = rankdata y_median_signed;
          ranks_unsigned = rankdata y_median_unsigned;
          z = map (\<lambda>r. if 0 < r then 1 else 0) ranks_signed;
          v = sum_list (map2 (*) ranks_unsigned z)
      in v)"

record wilcoxon_result =
  wt_self :: wilcoxon_test
  wt_V :: real

definition WilcoxonTest_init ::
  "real list \<Rightarrow> real list option \<Rightarrow> bool \<Rightarrow> real \<Rightarrow> py_error + wilcoxon_result" where
  "WilcoxonTest_init y1 y2 paired mu0 =
     (if paired then
        (case y2 of
           None \<Rightarrow> Inl ValueError
         | Some y2' \<Rightarrow>
             if length y1 \<noteq> length y2' then Inl ValueError
             else
               (let d = map2 (-) y1 y2';
                    self = \<lparr>wt_paired = paired, wt_median = mu0, wt_y1 = d, wt_n = length d\<rparr>
                in Inr \<lparr>wt_self = self, wt_V = v_statistic self\<rparr>))
      else
        (let self = \<lparr>wt_paired = paired, wt_median = mu0, wt_y1 = y1, wt_n = length y1\<rparr>
         in Inr \<lparr>wt_self = self, wt_V = v_statistic self\<rparr>))"

text \<open>The legacy module (\<open>hypy/nonparametric.py\<close>) has the same computation.\<close>

definition one_sample_test :: "real list \<Rightarrow> real \<Rightarrow> real" where
  "one_sample_test y1 mu0 =
     (let y_mu_signed = map (\<lambda>y. y - mu0) y1;
          y_mu_unsigned = map abs y_mu_signed;
          ranks_signed = rankdata y_mu_signed;
          ranks_unsigned = rankdata y_mu_unsigned;
          z = map (\<lambda>r. if 0 < r then 1 else 0) ranks_signed;
          v = sum_list (map2 (*) ranks_unsigned z)
      in v)"

text \<open>
  The signed-rank statistic as the specification words it: the signed differences are
  \<open>y1 - y2\<close> if paired, else \<open>y1 - mu\<close>; the absolute differences are ranked; the ranks at
  the indices whose signed difference is positive are summed.
\<close>

definition signed_differences :: "real list \<Rightarrow> real list option \<Rightarrow> bool \<Rightarrow> real \<Rightarrow> real list" where
  "signed_differences y1 y2 paired mu0 =
     (if paired then map2 (-) y1 (case y2 of Some y2' \<Rightarrow> y2' | None \<Rightarrow> [])
      else map (\<lambda>y. y - mu0) y1)"

definition positive_rank_sum :: "real list \<Rightarrow> real" where
  "positive_rank_sum d =
     sum_list (map snd (filter (\<lambda>dr. 0 < fst dr) (zip d (rankdata (map abs d)))))"

subsection \<open>tie\_correction\<close>

definition unique_counts :: "real list \<Rightarrow> nat list" where
  \<comment> \<open>\<open>np.unique(a, return_counts=True)[1]\<close>: the multiplicity of each distinct value,
      in ascending order of the values\<close>
  "unique_counts a = map (count_list a) (sort (remdups a))"

text \<open>
  The function has no \<open>raise\<close>; the quotient is a numpy division of an \<open>int64\<close> sum by
  a Python integer, which warns and returns a non-finite value when the divisor is zero.
\<close>

definition tie_correction :: "real list \<Rightarrow> py_error + npfloat" where
  "tie_correction rank_array =
     (let tied_groups = unique_counts rank_array;
          tied_groups = filter (\<lambda>t. 1 < t) tied_groups;
          N = int (length rank_array);
          corr = Fin 1 - Fin (real_of_int (\<Sum>t\<leftarrow>tied_groups. int t ^ 3 - int t))
                           / Fin (real_of_int (N ^ 3 - N))
      in Inr corr)"

section \<open>hypothesis.py\<close>

subsection \<open>The distribution functions of scipy\<close>

text \<open>
  The distribution functions come from \<open>scipy.stats\<close> and are parameters of the model:
  \<open>norm_ppf\<close> for \<open>norm.ppf\<close>, \<open>beta_ppf\<close> for \<open>beta.ppf\<close>, \<open>chi2_cdf\<close> for \<open>chi2.cdf\<close>, and
  \<open>F\<close> for Student's distribution function at a finite argument and a positive number of
  degrees of freedom. Around \<open>F\<close>, \<open>t.cdf\<close> is scipy's generic wrapper: NaN for a NaN
  argument and for degrees of freedom that are not positive, 1 at \<open>+inf\<close>, 0 at \<open>-inf\<close>.
\<close>

definition t_cdf :: "(real \<Rightarrow> real \<Rightarrow> real) \<Rightarrow> npfloat \<Rightarrow> npfloat \<Rightarrow> npfloat" where
  "t_cdf F x df =
     (case df of
        Fin d \<Rightarrow>
          if 0 < d then
            (case x of Fin a \<Rightarrow> Fin (F a d) | PInf \<Rightarrow> Fin 1 | NInf \<Rightarrow> Fin 0 | NaN \<Rightarrow> NaN)
          else NaN
      | _ \<Rightarrow> NaN)"

text \<open>
  Student's distribution with one degree of freedom is the Cauchy distribution, whose
  distribution function has a closed form; it stands for \<open>F\<close> where a property is
  evaluated on a concrete sample.
\<close>

definition cauchy_cdf :: "real \<Rightarrow> real \<Rightarrow> real" where
  "cauchy_cdf a d = 1 / 2 + arctan a / pi"

subsection \<open>float64 operations\<close>

text \<open>
  The results of \<open>BinomialTest\<close> depend on how float64 arithmetic rounds: probabilities
  that differ in the last digit are compared, binomial coefficients overflow, and a bound
  is returned as computed. Its arithmetic is therefore modelled with the float64
  operations as parameters. \<open>fl\<close> is the rounding of an exact result to float64 (the
  nearest float64, an infinity beyond the largest one): IEEE 754 addition, subtraction,
  multiplication, division and square root return the rounding of the exact result, and
  so do the conversion of a Python integer and the quotient of two Python integers.
  \<open>array_sum\<close> is \<open>np.sum\<close> of a float64 array, \<open>np_pow\<close> is \<open>**\<close> on numpy values, \<open>py_pow\<close>
  is \<open>**\<close> on Python numbers (which can raise), \<open>binom\<close> is the value scipy computes for
  a binomial coefficient.
\<close>

record float64_ops =
  fl :: "real \<Rightarrow> npfloat"
  array_sum :: "npfloat list \<Rightarrow> npfloat"
  np_pow :: "npfloat \<Rightarrow> int \<Rightarrow> npfloat"
  py_pow :: "npfloat \<Rightarrow> int \<Rightarrow> py_error + npfloat"
  binom :: "int \<Rightarrow> int \<Rightarrow> npfloat"

definition rounded :: "float64_ops \<Rightarrow> npfloat \<Rightarrow> npfloat" where
  "rounded fp v = (case v of Fin a \<Rightarrow> fl fp a | _ \<Rightarrow> v)"

definition fadd :: "float64_ops \<Rightarrow> npfloat \<Rightarrow> npfloat \<Rightarrow> npfloat" where
  "fadd fp a b = rounded fp (a + b)"

definition fsub :: "float64_ops \<Rightarrow> npfloat \<Rightarrow> npfloat \<Rightarrow> npfloat" where
  "fsub fp a b = rounded fp (a - b)"

definition fmul :: "float64_ops \<Rightarrow> npfloat \<Rightarrow> npfloat \<Rightarrow> npfloat" where
  "fmul fp a b = rounded fp (a * b)"

definition fdiv :: "float64_ops \<Rightarrow> npfloat \<Rightarrow> npfloat \<Rightarrow> npfloat" where
  "fdiv fp a b = rounded fp (a / b)"

definition fsqrt :: "float64_ops \<Rightarrow> npfloat \<Rightarrow> npfloat" where
  "fsqrt fp a = rounded fp (np_sqrt a)"

text \<open>
  The operations without rounding error and without overflow. They agree with float64
  arithmetic wherever every exact result is a float64 number, and serve to evaluate a
  property on a concrete input.
\<close>

definition exact_float64 :: float64_ops where
  "exact_float64 =
     \<lparr>fl = Fin,
      array_sum = np_sum,
      np_pow = (\<lambda>a k. case a of Fin b \<Rightarrow> np_power b k | _ \<Rightarrow> NaN),
      py_pow = (\<lambda>a k. Inr (case a of Fin b \<Rightarrow> np_power b k | _ \<Rightarrow> NaN)),
      binom = (\<lambda>N k. Fin (real (nat N choose nat k)))\<rparr>"

subsection \<open>BinomialTest\<close>

text \<open>
  \<open>binomial_attrs\<close> holds the attributes that \<open>__init__\<close> stores before it calls the
  methods; a method takes them as \<open>self\<close> and the attributes computed since as further
  arguments. The Agresti-Coull and arcsine intervals are numpy expressions computed last;
  they raise nothing and are left out.
\<close>

record binomial_attrs =
  bt_n :: int
  bt_x :: int
  bt_p :: real
  bt_q :: npfloat
  bt_alpha :: real
  bt_alternative :: string
  bt_continuity :: bool

record interval =
  probability_of_success :: npfloat
  lower_bound :: npfloat
  upper_bound :: npfloat

definition comb :: "float64_ops \<Rightarrow> int \<Rightarrow> int \<Rightarrow> npfloat" where
  \<comment> \<open>\<open>scipy.special.comb\<close>: zero outside \<open>0 \<le> k \<le> N\<close>\<close>
  "comb fp N k = (if k \<le> N \<and> 0 \<le> N \<and> 0 \<le> k then binom fp N k else Fin 0)"

definition p_value :: "float64_ops \<Rightarrow> binomial_attrs \<Rightarrow> py_error + npfloat" where
  \<comment> \<open>the arrays are computed with numpy's \<open>**\<close>, the scalar \<open>y\<close> with Python's\<close>
  "p_value fp self =
     (let successes = [0..bt_x self];
          pval = array_sum fp
                   (map (\<lambda>k. fmul fp (fmul fp (comb fp (bt_n self) k)
                                              (np_pow fp (Fin (bt_p self)) k))
                                    (np_pow fp (bt_q self) (bt_n self - k))) successes)
      in if bt_alternative self = ''two-sided'' then
           (let other_tail = [bt_x self + 1..bt_n self]
            in case py_pow fp (Fin (bt_p self)) (bt_x self) of
                 Inl e \<Rightarrow> Inl e
               | Inr px \<Rightarrow>
                   (case py_pow fp (bt_q self) (bt_n self - bt_x self) of
                      Inl e \<Rightarrow> Inl e
                    | Inr qx \<Rightarrow>
                        (let y = fmul fp (fmul fp (comb fp (bt_n self) (bt_x self)) px) qx;
                             p_othertail =
                               map (\<lambda>k. fmul fp (fmul fp (comb fp (bt_n self) k)
                                                         (np_pow fp (Fin (bt_p self)) k))
                                               (np_pow fp (bt_q self) (bt_n self - k)))
                                   other_tail;
                             p_othertail = array_sum fp (filter (\<lambda>v. v \<le> y) p_othertail)
                         in Inr (fadd fp pval p_othertail))))
         else Inr pval)"

definition clopper_pearson_interval ::
  "float64_ops \<Rightarrow> (npfloat \<Rightarrow> int \<Rightarrow> int \<Rightarrow> npfloat) \<Rightarrow> binomial_attrs \<Rightarrow> py_error + interval" where
  \<comment> \<open>\<open>self.x / self.n\<close> divides two Python integers: it raises on \<open>n = 0\<close> and on a
      quotient beyond the float64 range\<close>
  "clopper_pearson_interval fp beta_ppf self =
     (if bt_n self = 0 then Inl ZeroDivisionError
      else
        (case fl fp (real_of_int (bt_x self) / real_of_int (bt_n self)) of
           Fin p \<Rightarrow>
             (let lower = beta_ppf (fdiv fp (Fin (bt_alpha self)) (Fin 2))
                            (bt_x self) (bt_n self - bt_x self + 1);
                  upper = beta_ppf (fsub fp (Fin 1) (fdiv fp (Fin (bt_alpha self)) (Fin 2)))
                            (bt_x self + 1) (bt_n self - bt_x self)
              in Inr \<lparr>probability_of_success = Fin p, lower_bound = lower,
                       upper_bound = upper\<rparr>)
         | _ \<Rightarrow> Inl OverflowError))"

definition wilson_radicand :: "float64_ops \<Rightarrow> binomial_attrs \<Rightarrow> npfloat \<Rightarrow> npfloat \<Rightarrow> npfloat" where
  \<comment> \<open>the argument of \<open>np.sqrt\<close> in the continuity-corrected bounds; \<open>n\<close> is \<open>self.n\<close>
      converted to float64\<close>
  "wilson_radicand fp self z n =
     fadd fp
       (fadd fp
          (fadd fp
             (fsub fp (np_pow fp z 2) (fdiv fp (Fin 1) n))
             (fmul fp (fmul fp (fmul fp (Fin 4) n) (Fin (bt_p self))) (bt_q self)))
          (fsub fp (fmul fp (Fin 4) (Fin (bt_p self))) (Fin 2)))
       (Fin 1)"

definition wilson_score_interval ::
  "float64_ops \<Rightarrow> binomial_attrs \<Rightarrow> npfloat \<Rightarrow> py_error + interval" where
  \<comment> \<open>converting \<open>self.n\<close> to float64 raises beyond the float64 range; \<open>1. / self.n\<close> and
      \<open>(self.p * self.q) / self.n\<close> are Python divisions and raise on \<open>n = 0\<close>;
      \<open>self.n ** 2.\<close> is Python's \<open>**\<close>\<close>
  "wilson_score_interval fp self z =
     (case fl fp (real_of_int (bt_n self)) of
        Fin nv \<Rightarrow>
          (let n = Fin nv; p = Fin (bt_p self); q = bt_q self; zz = np_pow fp z 2;
               pc = fdiv fp (fadd fp p (fdiv fp zz (fmul fp (Fin 2) n)))
                            (fadd fp (Fin 1) (fdiv fp zz n))
           in if bt_n self = 0 then Inl ZeroDivisionError
              else if bt_continuity self then
                (let root = fsqrt fp (wilson_radicand fp self z n);
                     lower = fdiv fp (fsub fp (fadd fp (fmul fp (fmul fp (Fin 2) n) p) zz)
                                               (fmul fp z root))
                                     (fmul fp (Fin 2) (fadd fp n zz));
                     upper = fdiv fp (fadd fp (fadd fp (fmul fp (fmul fp (Fin 2) n) p) zz)
                                               (fmul fp z root))
                                     (fmul fp (Fin 2) (fadd fp n zz))
                 in Inr \<lparr>probability_of_success = pc,
                          lower_bound = np_maximum (Fin 0) lower,
                          upper_bound = np_minimum (Fin 1) upper\<rparr>)
              else
                (case py_pow fp n 2 of
                   Inl e \<Rightarrow> Inl e
                 | Inr n2 \<Rightarrow>
                     (let bound = fmul fp (fdiv fp z (fadd fp (Fin 1) (fdiv fp zz n)))
                                    (fsqrt fp (fadd fp (fdiv fp (fmul fp p q) n)
                                                       (fdiv fp zz (fmul fp (Fin 4) n2))))
                      in Inr \<lparr>probability_of_success = pc,
                               lower_bound = fsub fp pc bound,
                               upper_bound = fadd fp pc bound\<rparr>)))
      | _ \<Rightarrow> Inl OverflowError)"

record binomial_test =
  bt_self :: binomial_attrs
  bt_p_value :: npfloat
  bt_z :: npfloat
  bt_clopper_pearson_interval :: interval
  bt_wilson_score_interval :: interval

definition BinomialTest_init ::
  "float64_ops \<Rightarrow> (npfloat \<Rightarrow> npfloat) \<Rightarrow> (npfloat \<Rightarrow> int \<Rightarrow> int \<Rightarrow> npfloat) \<Rightarrow>
   int \<Rightarrow> int \<Rightarrow> real \<Rightarrow> string \<Rightarrow> real \<Rightarrow> bool \<Rightarrow> py_error + binomial_test" where
  "BinomialTest_init fp norm_ppf beta_ppf n x p alternative alpha continuity =
     (if n < x then Inl ValueError
      else if 1 < p then Inl ValueError
      else if alternative \<notin> set [''two-sided'', ''greater'', ''lesser''] then Inl ValueError
      else
        (let self = \<lparr>bt_n = n, bt_x = x, bt_p = p, bt_q = fsub fp (Fin 1) (Fin p),
                     bt_alpha = alpha, bt_alternative = alternative,
                     bt_continuity = continuity\<rparr>
         in case p_value fp self of
              Inl e \<Rightarrow> Inl e
            | Inr pv \<Rightarrow>
                (let z = norm_ppf (fsub fp (Fin 1) (fdiv fp (Fin alpha) (Fin 2)))
                 in case clopper_pearson_interval fp beta_ppf self of
                      Inl e \<Rightarrow> Inl e
                    | Inr cp \<Rightarrow>
                        (case wilson_score_interval fp self z of
                           Inl e \<Rightarrow> Inl e
                         | Inr w \<Rightarrow>
                             Inr \<lparr>bt_self = self, bt_p_value = pv, bt_z = z,
                                  bt_clopper_pearson_interval = cp,
                                  bt_wilson_score_interval = w\<rparr>))))"

text \<open>
  The exact p-value as the specification words it, on the probabilities that the code
  computes: \<open>computed_pmf\<close> is the float64 value of the binomial probability of \<open>k\<close>; the
  p-value is the sum of the probabilities of \<open>k = 0..x\<close>, plus, for the two-sided
  alternative, the sum of the probabilities of those \<open>k = x+1..n\<close> whose probability does
  not exceed \<open>y\<close>, the probability of \<open>x\<close>.
\<close>

definition computed_pmf :: "float64_ops \<Rightarrow> int \<Rightarrow> real \<Rightarrow> int \<Rightarrow> npfloat" where
  "computed_pmf fp n p k =
     fmul fp (fmul fp (comb fp n k) (np_pow fp (Fin p) k))
             (np_pow fp (fsub fp (Fin 1) (Fin p)) (n - k))"



text \<open>
  The binomial probability of \<open>k\<close> successes in \<open>n\<close> trials as a real number, to which
  \<open>computed_pmf\<close> is compared.
\<close>

definition binomial_pmf :: "int \<Rightarrow> real \<Rightarrow> int \<Rightarrow> real" where
  "binomial_pmf n p k = real (nat n choose nat k) * p ^ nat k * (1 - p) ^ nat (n - k)"

subsection \<open>ChiSquareTest\<close>

text \<open>
  \<open>np.array\<close> gives a list of Python integers the dtype \<open>int64\<close> and a list with a float
  the dtype \<open>float64\<close>; the dtype decides what \<open>np.full_like\<close> stores.
\<close>

datatype ndarray = IntArr "int list" | FloatArr "npfloat list"

fun shape0 :: "ndarray \<Rightarrow> nat" where
  "shape0 (IntArr xs) = length xs"
| "shape0 (FloatArr xs) = length xs"

fun as_float :: "ndarray \<Rightarrow> npfloat list" where
  "as_float (IntArr xs) = map (\<lambda>i. Fin (real_of_int i)) xs"
| "as_float (FloatArr xs) = xs"

definition np_mean :: "ndarray \<Rightarrow> npfloat" where
  "np_mean a = np_sum (as_float a) / Fin (real (shape0 a))"

fun cast_int64 :: "npfloat \<Rightarrow> int" where
  \<comment> \<open>the C conversion that an unsafe cast to \<open>int64\<close> applies: truncation towards zero;
      a non-finite value gives the smallest \<open>int64\<close>\<close>
  "cast_int64 (Fin v) = (if 0 \<le> v then \<lfloor>v\<rfloor> else \<lceil>v\<rceil>)"
| "cast_int64 PInf = - (2 ^ 63)"
| "cast_int64 NInf = - (2 ^ 63)"
| "cast_int64 NaN = - (2 ^ 63)"

fun full_like :: "ndarray \<Rightarrow> npfloat \<Rightarrow> ndarray" where
  \<comment> \<open>an array of the shape and the dtype of the first argument, filled with the second\<close>
  "full_like (IntArr xs) fill_value = IntArr (replicate (length xs) (cast_int64 fill_value))"
| "full_like (FloatArr xs) fill_value = FloatArr (replicate (length xs) fill_value)"

record chi_square_attrs =
  cs_observed :: ndarray
  cs_expected :: ndarray
  cs_degrees_of_freedom :: real
  cs_continuity_correction :: bool
  cs_n :: nat

definition chisquare_value :: "chi_square_attrs \<Rightarrow> npfloat" where
  "chisquare_value self =
     np_sum (map2 (\<lambda>ob ex.
                (\<bar>ob - ex\<bar> - Fin ((1 / 2) * (if cs_continuity_correction self then 1 else 0)))
                * (\<bar>ob - ex\<bar> - Fin ((1 / 2) * (if cs_continuity_correction self then 1 else 0)))
                / ex)
             (as_float (cs_observed self)) (as_float (cs_expected self)))"

record chi_square_test =
  cs_self :: chi_square_attrs
  cs_chi_square :: npfloat
  cs_p_value :: npfloat

definition ChiSquareTest_init ::
  "(npfloat \<Rightarrow> real \<Rightarrow> npfloat) \<Rightarrow> ndarray \<Rightarrow> ndarray option \<Rightarrow> bool \<Rightarrow> real
     \<Rightarrow> py_error + chi_square_test" where
  "ChiSquareTest_init chi2_cdf observed expected continuity degrees_freedom =
     (let fit = (\<lambda>ex.
            (let self = \<lparr>cs_observed = observed, cs_expected = ex,
                         cs_degrees_of_freedom = degrees_freedom,
                         cs_continuity_correction = continuity, cs_n = shape0 observed\<rparr>;
                 x2 = chisquare_value self
             in \<lparr>cs_self = self, cs_chi_square = x2,
                  cs_p_value = chi2_cdf x2 degrees_freedom\<rparr>))
      in case expected of
           None \<Rightarrow>
             (let obs_mean = np_mean observed
              in Inr (fit (full_like observed obs_mean)))
         | Some ex \<Rightarrow>
             if shape0 observed \<noteq> shape0 ex then Inl ValueError else Inr (fit ex))"

subsection \<open>tTest\<close>

text \<open>
  The constructor is modelled for \<open>group=None\<close> (with a group vector the two samples are
  taken from \<open>numpy_indexed.group_by\<close> and the same code follows), up to the attribute
  \<open>p_value\<close>; the confidence interval and the summary are computed afterwards and raise
  nothing. \<open>tt_stats2\<close> is the entry \<open>'Sample 2'\<close> of \<open>sample_statistics\<close>, present exactly
  when \<open>self.y2\<close> is not \<open>None\<close>.
\<close>

record sample_stats =
  obs :: int
  variance :: npfloat
  mean :: npfloat

definition sample_stats_of :: "real list \<Rightarrow> sample_stats" where
  \<comment> \<open>\<open>np.var\<close> is the mean of the squared deviations from \<open>np.mean\<close>; both are
      \<open>0.0 / 0\<close> on an empty vector\<close>
  "sample_stats_of sample_vector =
     (let n = Fin (real (length sample_vector));
          m = np_sum (map Fin sample_vector) / n;
          v = np_sum (map (\<lambda>y. \<bar>Fin y - m\<bar> * \<bar>Fin y - m\<bar>) sample_vector) / n
      in \<lparr>obs = int (length sample_vector), variance = v, mean = m\<rparr>)"

definition paired :: "real list \<Rightarrow> real list \<Rightarrow> py_error + real list" where
  "paired y1 y2 = (if length y1 \<noteq> length y2 then Inl ValueError else Inr (map2 (-) y1 y2))"

record ttest_attrs =
  tt_paired :: bool
  tt_alpha :: real
  tt_alternative :: string
  tt_mu :: "real option"
  tt_var_equal :: bool
  tt_test_description :: string
  tt_y1 :: "real list"
  tt_y2 :: "real list option"
  tt_stats1 :: sample_stats
  tt_stats2 :: "sample_stats option"

text \<open>
  A variance divided by a number of observations (\<open>s1 / n1\<close>) is a Python division and raises
  on zero, as do \<open>1. / n1\<close> and the division by \<open>n1 + n2 - 2.\<close>; a division whose operand
  comes from \<open>np.power\<close> or \<open>np.sqrt\<close> is a numpy division.
\<close>

definition degrees_of_freedom :: "ttest_attrs \<Rightarrow> py_error + npfloat" where
  "degrees_of_freedom self =
     (let n1 = obs (tt_stats1 self); s1 = variance (tt_stats1 self);
          v1 = n1 - 1
      in case tt_stats2 self of
           Some st2 \<Rightarrow>
             (let n2 = obs st2; s2 = variance st2;
                  v2 = n2 - 1
              in if tt_var_equal self then Inr (Fin (real_of_int (n1 + n2 - 2)))
                 else if n1 = 0 \<or> n2 = 0 then Inl ZeroDivisionError
                 else
                   (let a = s1 / Fin (real_of_int n1); b = s2 / Fin (real_of_int n2)
                    in Inr (((a + b) * (a + b))
                            / ((a * a) / Fin (real_of_int v1) + (b * b) / Fin (real_of_int v2)))))
         | None \<Rightarrow> Inr (Fin (real_of_int v1)))"

definition test_statistic :: "ttest_attrs \<Rightarrow> py_error + npfloat" where
  "test_statistic self =
     (let n1 = obs (tt_stats1 self); s1 = variance (tt_stats1 self);
          ybar1 = mean (tt_stats1 self)
      in case tt_stats2 self of
           Some st2 \<Rightarrow>
             (let n2 = obs st2; s2 = variance st2; ybar2 = mean st2
              in if tt_var_equal self then
                   (if n1 + n2 - 2 = 0 \<or> n1 = 0 \<or> n2 = 0 then Inl ZeroDivisionError
                    else
                      (let sp = np_sqrt ((Fin (real_of_int (n1 - 1)) * s1
                                           + Fin (real_of_int (n2 - 1)) * s2)
                                          / Fin (real_of_int (n1 + n2 - 2)))
                       in Inr ((ybar1 - ybar2)
                               / (sp * np_sqrt (Fin (1 / real_of_int n1 + 1 / real_of_int n2))))))
                 else
                   (if n1 = 0 \<or> n2 = 0 then Inl ZeroDivisionError
                    else Inr ((ybar1 - ybar2)
                              / np_sqrt (s1 / Fin (real_of_int n1) + s2 / Fin (real_of_int n2)))))
         | None \<Rightarrow>
             (let mu0 = (case tt_mu self of None \<Rightarrow> 0 | Some m \<Rightarrow> m)
              in if n1 = 0 then Inl ZeroDivisionError
                 else Inr ((ybar1 - Fin mu0) / np_sqrt (s1 / Fin (real_of_int n1)))))"

definition pvalue :: "(real \<Rightarrow> real \<Rightarrow> real) \<Rightarrow> ttest_attrs \<Rightarrow> npfloat \<Rightarrow> npfloat \<Rightarrow> npfloat" where
  "pvalue F self t_statistic parameter =
     (let p = t_cdf F t_statistic parameter;
          p = (if tt_alternative self = ''two-sided'' then p * Fin 2
               else if tt_alternative self = ''greater'' then Fin 1 - p
               else p);
          p = (if Fin 1 < p \<and> p < Fin 2 then Fin 2 - p else p);
          p = (if p = Fin 2 then eps else p)
      in p)"

record ttest =
  tt_self :: ttest_attrs
  tt_parameter :: npfloat
  tt_t_statistic :: npfloat
  tt_p_value :: npfloat

definition tTest_fit :: "(real \<Rightarrow> real \<Rightarrow> real) \<Rightarrow> ttest_attrs \<Rightarrow> py_error + ttest" where
  "tTest_fit F self =
     (case degrees_of_freedom self of
        Inl e \<Rightarrow> Inl e
      | Inr v \<Rightarrow>
          (case test_statistic self of
             Inl e \<Rightarrow> Inl e
           | Inr tval \<Rightarrow>
               Inr \<lparr>tt_self = self, tt_parameter = v, tt_t_statistic = tval,
                    tt_p_value = pvalue F self tval v\<rparr>))"

definition tTest_init ::
  "(real \<Rightarrow> real \<Rightarrow> real) \<Rightarrow> real list \<Rightarrow> real list option \<Rightarrow> real option \<Rightarrow> bool \<Rightarrow> bool
     \<Rightarrow> string \<Rightarrow> real \<Rightarrow> py_error + ttest" where
  "tTest_init F y1 y2 mu0 var_equal is_paired alternative alpha =
     (if alternative \<notin> set [''two-sided'', ''greater'', ''less''] then Inl ValueError
      else if is_paired \<and> y2 = None then Inl ValueError
      else
        (let method = (if var_equal then ''Student's t-test'' else ''Welch's t-test'');
             attrs = (\<lambda>description a b st1 st2.
                \<lparr>tt_paired = is_paired, tt_alpha = alpha, tt_alternative = alternative,
                 tt_mu = mu0, tt_var_equal = var_equal, tt_test_description = description,
                 tt_y1 = a, tt_y2 = b, tt_stats1 = st1, tt_stats2 = st2\<rparr>)
         in if is_paired then
              (case paired y1 (case y2 of Some b \<Rightarrow> b | None \<Rightarrow> []) of
                 Inl e \<Rightarrow> Inl e
               | Inr d \<Rightarrow> tTest_fit F (attrs ''Paired t-test'' d None (sample_stats_of d) None))
            else
              (case y2 of
                 None \<Rightarrow>
                   tTest_fit F (attrs ''One-Sample t-test'' y1 None (sample_stats_of y1) None)
               | Some b \<Rightarrow>
                   tTest_fit F (attrs (''Two-Sample'' @ '' '' @ method) y1 (Some b)
                                  (sample_stats_of y1) (Some (sample_stats_of b))))))"

text \<open>
  The p-value as the specification words it, from the value \<open>p0\<close> of the distribution
  function: doubled for the two-sided alternative, \<open>1 - p0\<close> for \<open>greater\<close>; a result
  strictly between 1 and 2 is replaced by 2 minus it, the result 2 by machine epsilon.
\<close>

definition wrapped_p_value :: "string \<Rightarrow> real \<Rightarrow> real" where
  "wrapped_p_value alternative p0 =
     (let v = (if alternative = ''two-sided'' then 2 * p0
               else if alternative = ''greater'' then 1 - p0
               else p0)
      in if 1 < v \<and> v < 2 then 2 - v
         else if v = 2 then 1 / 2 ^ 52
         else v)"

section \<open>Ranks sum to n(n+1)/2\<close>

lemma sum_filter_cons:
  "(\<Sum>y\<leftarrow>b. length (filter (\<lambda>x. x \<le> y) (x0 # a)))
     = length (filter (\<lambda>y. x0 \<le> y) b) + (\<Sum>y\<leftarrow>b. length (filter (\<lambda>x. x \<le> y) a))"
  by (induction b) auto

lemma less_le_split:
  "length (filter (\<lambda>y. y < x0) b) + length (filter (\<lambda>y. x0 \<le> y) b) = length (b :: real list)"
proof -
  have "(\<lambda>y. x0 \<le> y) = (\<lambda>y. \<not> y < x0)" by (auto simp: not_less)
  then show ?thesis using sum_length_filter_compl [of "\<lambda>y. y < x0" b] by simp
qed

lemma count_pairs:
  "(\<Sum>x\<leftarrow>a. length (filter (\<lambda>y. y < x) b)) + (\<Sum>y\<leftarrow>b. length (filter (\<lambda>x. x \<le> y) a))
     = length a * length (b :: real list)"
proof (induction a)
  case Nil
  show ?case by simp
next
  case (Cons x0 a)
  have 1: "(\<Sum>x\<leftarrow>x0 # a. length (filter (\<lambda>y. y < x) b))
          = length (filter (\<lambda>y. y < x0) b) + (\<Sum>x\<leftarrow>a. length (filter (\<lambda>y. y < x) b))"
    by simp
  note 2 = sum_filter_cons [of x0 a b]
  note 3 = less_le_split [of x0 b]
  from 1 2 3 Cons.IH
  have "(\<Sum>x\<leftarrow>x0 # a. length (filter (\<lambda>y. y < x) b))
          + (\<Sum>y\<leftarrow>b. length (filter (\<lambda>x. x \<le> y) (x0 # a)))
        = length b + length a * length b"
    by linarith
  then show ?case by simp
qed

lemma sum_list_rank_terms:
  "(\<Sum>x\<leftarrow>a. (real (f x) + real (g x) + 1) / 2)
     = (real (\<Sum>x\<leftarrow>a. f x) + real (\<Sum>x\<leftarrow>a. g x) + real (length a)) / 2"
  by (induction a) (auto simp: field_simps)

lemma sum_list_rankdata:
  "sum_list (rankdata a) = real (length a) * (real (length a) + 1) / 2"
proof -
  let ?n = "length a"
  have "sum_list (rankdata a)
      = (real (\<Sum>x\<leftarrow>a. length (filter (\<lambda>y. y < x) a))
         + real (\<Sum>x\<leftarrow>a. length (filter (\<lambda>y. y \<le> x) a)) + real ?n) / 2"
    unfolding rankdata_def by (rule sum_list_rank_terms)
  also have "\<dots> = (real (?n * ?n) + real ?n) / 2"
    using count_pairs [of a a] by (simp only: of_nat_add [symmetric])
  also have "\<dots> = real ?n * (real ?n + 1) / 2"
    by (simp add: algebra_simps)
  finally show ?thesis .
qed

lemma length_rankdata: "length (rankdata a) = length a"
  by (simp add: rankdata_def)

lemma rank_column:
  "length rs = length rows \<Longrightarrow>
   map (\<lambda>row. snd (snd row)) (map2 (\<lambda>row r. (fst row, snd row, r)) rows rs) = rs"
  by (induction rows rs rule: list_induct2') auto

text \<open>
  C2. For every numeric vector of length n, the average-rank utility returns a vector of
  length n whose elements sum to exactly n(n+1)/2, whatever ties the input has. So does
  the rank column that \<open>KruskalWallis._rank\<close> appends to the design matrix, and so do the
  ranks of the concatenated samples of which \<open>MannWhitney._rank\<close> keeps the first n1.
\<close>

theorem rank_sum_invariant:
  "length (rankdata a) = length a
   \<and> sum_list (rankdata a) = real (length a) * (real (length a) + 1) / 2
   \<and> sum_list (map (\<lambda>row. snd (snd row)) (KruskalWallis_rank dm))
       = real (length dm) * (real (length dm) + 1) / 2
   \<and> sum_list (MannWhitney_rank y1 y2 (length y1))
         + sum_list (drop (length y1) (rankdata (y1 @ y2)))
       = real (length y1 + length y2) * (real (length y1 + length y2) + 1) / 2"
proof -
  have kw: "map (\<lambda>row. snd (snd row)) (KruskalWallis_rank dm) = rankdata (map snd dm)"
    unfolding KruskalWallis_rank_def Let_def
    by (rule rank_column) (simp add: length_rankdata)
  have "sum_list (take (length y1) (rankdata (y1 @ y2)))
          + sum_list (drop (length y1) (rankdata (y1 @ y2)))
        = sum_list (rankdata (y1 @ y2))"
    by (simp only: sum_list_append [symmetric] append_take_drop_id)
  then have mw: "sum_list (MannWhitney_rank y1 y2 (length y1))
          + sum_list (drop (length y1) (rankdata (y1 @ y2)))
        = real (length (y1 @ y2)) * (real (length (y1 @ y2)) + 1) / 2"
    by (simp only: MannWhitney_rank_def Let_def sum_list_rankdata)
  show ?thesis
    using sum_list_rankdata [of a] sum_list_rankdata [of "map snd dm"] kw mw
    by (simp add: length_rankdata)
qed

section \<open>The Wilcoxon V statistic\<close>

lemma rankdata_pos: "r \<in> set (rankdata a) \<Longrightarrow> 0 < r"
  by (auto simp: rankdata_def intro!: divide_pos_pos add_nonneg_pos)

lemma indicator_all_one:
  "(\<And>r. r \<in> set rs \<Longrightarrow> 0 < r) \<Longrightarrow>
   map (\<lambda>r. if 0 < r then 1 else 0) rs = map (\<lambda>r. 1::real) (rs :: real list)"
  by (induction rs) auto

lemma sum_list_times_ones:
  "length xs = length ys \<Longrightarrow> sum_list (map2 (*) xs (map (\<lambda>r. 1::real) ys)) = sum_list xs"
  by (induction xs ys rule: list_induct2) auto

lemma masked_rank_sum:
  "length a = length b \<Longrightarrow>
   sum_list (map2 (*) (rankdata b) (map (\<lambda>r. if 0 < r then 1 else 0) (rankdata a)))
     = real (length b) * (real (length b) + 1) / 2"
proof -
  assume len: "length a = length b"
  have "map (\<lambda>r. if 0 < r then 1 else 0) (rankdata a) = map (\<lambda>r. 1::real) (rankdata a)"
    by (rule indicator_all_one) (rule rankdata_pos)
  moreover have "length (rankdata b) = length (rankdata a)"
    using len by (simp add: length_rankdata)
  ultimately show ?thesis
    by (simp only: sum_list_times_ones sum_list_rankdata)
qed

text \<open>
  The mask \<open>z\<close> of \<open>v_statistic\<close> tests the ranks of the signed differences, and a rank is
  at least 1: every index is kept, and V is the sum of all ranks whatever the signs are.
\<close>

lemma v_statistic_ignores_signs:
  "v_statistic self = real (length (wt_y1 self)) * (real (length (wt_y1 self)) + 1) / 2"
  unfolding v_statistic_def Let_def
  by (subst masked_rank_sum) (simp_all split: if_splits)

lemma one_sample_test_negative_difference: "one_sample_test [- 1] 0 = 1"
  by (simp add: one_sample_test_def rankdata_def)

text \<open>
  C1. V is to be the sum of the average ranks of the absolute differences over exactly the
  indices whose signed difference is positive. For the single observation \<open>y1 = [-1]\<close> with
  \<open>mu = 0\<close> no signed difference is positive and that sum is 0, but the constructor
  returns \<open>V = 1\<close>.
\<close>

theorem v_statistic_negative_difference:
  "map_sum id wt_V (WilcoxonTest_init [- 1] None False 0) = Inr 1
   \<and> positive_rank_sum (signed_differences [- 1] None False 0) = 0"
  by (simp add: WilcoxonTest_init_def v_statistic_def signed_differences_def
      positive_rank_sum_def rankdata_def)

section \<open>The Mann-Whitney U statistic\<close>

lemma u_le_half: "u self \<le> real (mw_n1 self) * real (mw_n2 self) / 2"
  unfolding u_def Let_def min_def by (simp add: field_simps)

text \<open>
  C10. For every pair of sample vectors of sizes n1 and n2, the U statistic of the
  constructed test is at most n1 n2 / 2, being the smaller of U1 and n1 n2 - U1.
\<close>

theorem mann_whitney_u_bound:
  "MannWhitney_init y1 (Some y2) continuity = Inr r \<Longrightarrow>
   u_statistic r \<le> real (length y1) * real (length y2) / 2"
proof -
  assume "MannWhitney_init y1 (Some y2) continuity = Inr r"
  then obtain self where r: "u_statistic r = u self"
    and n: "mw_n1 self = length y1" "mw_n2 self = length y2"
    by (auto simp: MannWhitney_init_def Let_def)
  show ?thesis using u_le_half [of self] by (simp add: r n)
qed

theorem mann_whitney_u_bound_witness:
  "MannWhitney_init [1, 3] (Some [2]) True
     = Inr \<lparr>mw_self = \<lparr>mw_y1 = [1, 3], mw_y2 = [2], mw_n1 = 2, mw_n2 = 1, mw_n = 3,
                       mw_continuity = True, mw_ranks = [1, 3]\<rparr>,
            u_statistic = 1, meanrank = 3 / 2\<rparr>
   \<and> (1::real) \<le> real (length [1, 3 :: real]) * real (length [2 :: real]) / 2"
  using mann_whitney_u_bound [of "[1, 3]" "[2]" True]
  by (simp add: MannWhitney_init_def u_def mu_def MannWhitney_rank_def rankdata_def)

section \<open>The tie correction of a vector of at most one rank\<close>

lemma unique_counts_short: "length r \<le> 1 \<Longrightarrow> filter (\<lambda>t. 1 < t) (unique_counts r) = []"
  by (cases r) (auto simp: unique_counts_def)

text \<open>
  C7 as stated fails: for the rank vector \<open>[1]\<close> the function raises nothing and returns
  NaN.
\<close>

theorem tie_correction_single_rank:
  "\<not> isl (tie_correction [1]) \<and> tie_correction [1] = Inr NaN"
  by (simp add: tie_correction_def unique_counts_def minus_npfloat_def)

text \<open>
  C7, amended. For every rank vector of length N with N \<open>\<le>\<close> 1 the tie correction raises
  no error: there is no tie group, \<open>N^3 - N = 0\<close>, the quotient is the numpy division
  \<open>0 / 0\<close> and the function returns NaN.
\<close>

theorem tie_correction_short_vector:
  "length rank_array \<le> 1 \<Longrightarrow> tie_correction rank_array = Inr NaN"
proof -
  assume len: "length rank_array \<le> 1"
  then have N: "int (length rank_array) ^ 3 - int (length rank_array) = 0"
    by (cases rank_array) auto
  have f: "filter (\<lambda>t. 1 < t) (unique_counts rank_array) = []"
    using len by (rule unique_counts_short)
  show ?thesis
    unfolding tie_correction_def Let_def f N by (simp add: minus_npfloat_def)
qed

theorem tie_correction_short_vector_witness:
  "length ([] :: real list) \<le> 1 \<and> tie_correction [] = Inr NaN"
  using tie_correction_short_vector [of "[]"] by simp

section \<open>Arithmetic on finite values\<close>

lemma Fin_minus [simp]: "Fin a - Fin b = Fin (a - b)"
  by (simp add: minus_npfloat_def)

lemma NaN_minus [simp]: "NaN - a = NaN" "a - NaN = NaN"
  by (cases a; simp add: minus_npfloat_def)+

lemma foldl_plus_Fin: "foldl (+) (Fin a) (map Fin xs) = Fin (a + sum_list xs)"
  by (induction xs arbitrary: a) (auto simp: algebra_simps)

lemma np_sum_Fin: "np_sum (map Fin xs) = Fin (sum_list xs)"
  by (simp add: np_sum_def foldl_plus_Fin)

lemma np_sum_map_Fin: "np_sum (map (\<lambda>x. Fin (f x)) xs) = Fin (\<Sum>x\<leftarrow>xs. f x)"
  using np_sum_Fin [of "map f xs"] by (simp add: comp_def)

lemma np_sum_zeros [simp]: "np_sum (replicate n (Fin 0)) = Fin 0"
  unfolding np_sum_def by (induction n) auto

section \<open>The default expected vector of the chi-square test\<close>

text \<open>For an observed vector of dtype \<open>float64\<close> every default cell is the mean.\<close>

lemma default_expected_float:
  "ChiSquareTest_init chi2_cdf (FloatArr xs) None c df = Inr t \<Longrightarrow>
   cs_expected (cs_self t) = FloatArr (replicate (length xs) (np_mean (FloatArr xs)))"
  by (auto simp: ChiSquareTest_init_def Let_def)

text \<open>
  C6. With \<open>expected\<close> omitted, every cell of the expected vector is to equal the mean of
  the observed vector. For the observed counts \<open>[1, 2]\<close> (a list of integers, so an
  \<open>int64\<close> array) the mean is 1.5, and \<open>np.full_like\<close> stores it with the dtype of the
  observed array: the expected vector is \<open>[1, 1]\<close>.
\<close>

theorem default_expected_is_truncated:
  "map_sum id (\<lambda>t. cs_expected (cs_self t))
       (ChiSquareTest_init chi2_cdf (IntArr [1, 2]) None True 1)
     = Inr (IntArr [1, 1])
   \<and> np_mean (IntArr [1, 2]) = Fin (3 / 2)"
  by (simp add: ChiSquareTest_init_def np_mean_def np_sum_def Let_def)

section \<open>The p-value of the t-test\<close>

lemma wrapped_p_value_range:
  "0 \<le> p0 \<Longrightarrow> p0 \<le> 1 \<Longrightarrow> 0 \<le> wrapped_p_value alternative p0 \<and> wrapped_p_value alternative p0 \<le> 1"
  by (auto simp: wrapped_p_value_def Let_def)

lemma pvalue_Fin:
  "t_cdf F tval v = Fin p0 \<Longrightarrow> pvalue F self tval v = Fin (wrapped_p_value (tt_alternative self) p0)"
  by (auto simp: pvalue_def wrapped_p_value_def Let_def eps_def)

lemma pvalue_NaN: "t_cdf F tval v = NaN \<Longrightarrow> pvalue F self tval v = NaN"
  by (simp add: pvalue_def Let_def)

lemma t_cdf_cases:
  "(\<And>a d. 0 \<le> F a d \<and> F a d \<le> 1) \<Longrightarrow>
   t_cdf F x df = NaN \<or> (\<exists>p0. t_cdf F x df = Fin p0 \<and> 0 \<le> p0 \<and> p0 \<le> 1)"
  by (auto simp: t_cdf_def split: npfloat.splits)

lemma tTest_fit_p_value:
  "tTest_fit F self = Inr t \<Longrightarrow>
   tt_p_value t = pvalue F self (tt_t_statistic t) (tt_parameter t) \<and> tt_self t = self"
  by (auto simp: tTest_fit_def split: sum.splits)

lemma tTest_init_p_value:
  "tTest_init F y1 y2 mu0 var_equal is_paired alternative alpha = Inr t \<Longrightarrow>
   tt_p_value t = pvalue F (tt_self t) (tt_t_statistic t) (tt_parameter t)
   \<and> tt_alternative (tt_self t) = alternative"
  by (auto simp: tTest_init_def Let_def split: if_splits sum.splits option.splits
      dest!: tTest_fit_p_value)

lemma cauchy_cdf_range: "0 \<le> cauchy_cdf a d \<and> cauchy_cdf a d \<le> 1"
proof -
  have h: "pi / 2 / pi = 1 / 2" "- (pi / 2) / pi = - (1 / 2)"
    by simp_all
  have l: "- (1 / 2) < arctan a / pi"
    using divide_strict_right_mono [OF arctan_lbound pi_gt_zero, of a] unfolding h .
  have u: "arctan a / pi < 1 / 2"
    using divide_strict_right_mono [OF arctan_ubound pi_gt_zero, of a] unfolding h .
  from l u show ?thesis unfolding cauchy_cdf_def by linarith
qed

lemma init_pm1:
  "tTest_init cauchy_cdf [- 1, 1] None None False False ''two-sided'' (1 / 20)
     = Inr \<lparr>tt_self = \<lparr>tt_paired = False, tt_alpha = 1 / 20, tt_alternative = ''two-sided'',
                        tt_mu = None, tt_var_equal = False,
                        tt_test_description = ''One-Sample t-test'',
                        tt_y1 = [- 1, 1], tt_y2 = None,
                        tt_stats1 = \<lparr>obs = 2, variance = Fin 1, mean = Fin 0\<rparr>,
                        tt_stats2 = None\<rparr>,
            tt_parameter = Fin 1, tt_t_statistic = Fin 0, tt_p_value = Fin 1\<rparr>"
  by (simp add: tTest_init_def sample_stats_of_def np_sum_def tTest_fit_def
        degrees_of_freedom_def test_statistic_def pvalue_def t_cdf_def cauchy_cdf_def Let_def)

text \<open>
  C4 as stated fails: the one-sample test of the constant sample \<open>[0, 0]\<close> has mean 0 and
  variance 0, its statistic is the numpy division \<open>0 / 0\<close>, and the returned p-value is NaN,
  which does not lie in [0, 1].
\<close>

theorem ttest_p_value_constant_sample:
  "map_sum id tt_p_value
       (tTest_init cauchy_cdf [0, 0] None None False False ''two-sided'' (1 / 20))
     = Inr NaN
   \<and> \<not> (Fin 0 \<le> NaN \<and> NaN \<le> Fin 1)"
  by (simp add: tTest_init_def sample_stats_of_def np_sum_def tTest_fit_def
        degrees_of_freedom_def test_statistic_def pvalue_def t_cdf_def Let_def)

text \<open>
  C4, amended. For every constructed t-test, let \<open>p0\<close> be the value of \<open>t.cdf\<close> at the
  statistic and the degrees of freedom. When \<open>p0\<close> is a number, the p-value is \<open>p0\<close>
  doubled for the two-sided alternative, \<open>1 - p0\<close> for \<open>greater\<close>, \<open>p0\<close> otherwise, then
  replaced by 2 minus itself if it lies strictly between 1 and 2 and by machine epsilon
  if it equals 2; it lies in [0, 1]. When \<open>t.cdf\<close> is NaN, the p-value is NaN.
\<close>

theorem ttest_p_value_steps:
  assumes init: "tTest_init F y1 y2 mu0 var_equal is_paired alternative alpha = Inr t"
    and cdf: "\<And>a d. 0 \<le> F a d \<and> F a d \<le> 1"
  shows "case t_cdf F (tt_t_statistic t) (tt_parameter t) of
           Fin p0 \<Rightarrow> tt_p_value t = Fin (wrapped_p_value alternative p0)
                      \<and> 0 \<le> wrapped_p_value alternative p0
                      \<and> wrapped_p_value alternative p0 \<le> 1
         | NaN \<Rightarrow> tt_p_value t = NaN
         | _ \<Rightarrow> False"
proof -
  note pv = tTest_init_p_value [OF init]
  from t_cdf_cases [of F "tt_t_statistic t" "tt_parameter t"] cdf
  consider "t_cdf F (tt_t_statistic t) (tt_parameter t) = NaN"
    | p0 where "t_cdf F (tt_t_statistic t) (tt_parameter t) = Fin p0" "0 \<le> p0" "p0 \<le> 1"
    by blast
  then show ?thesis
  proof cases
    case 1
    then show ?thesis using pv by (simp add: pvalue_NaN)
  next
    case 2
    then show ?thesis using pv by (simp add: pvalue_Fin wrapped_p_value_range)
  qed
qed

theorem ttest_p_value_steps_witness:
  "tTest_init cauchy_cdf [- 1, 1] None None False False ''two-sided'' (1 / 20)
     = Inr \<lparr>tt_self = \<lparr>tt_paired = False, tt_alpha = 1 / 20, tt_alternative = ''two-sided'',
                        tt_mu = None, tt_var_equal = False,
                        tt_test_description = ''One-Sample t-test'',
                        tt_y1 = [- 1, 1], tt_y2 = None,
                        tt_stats1 = \<lparr>obs = 2, variance = Fin 1, mean = Fin 0\<rparr>,
                        tt_stats2 = None\<rparr>,
            tt_parameter = Fin 1, tt_t_statistic = Fin 0, tt_p_value = Fin 1\<rparr>
   \<and> (\<forall>a d. 0 \<le> cauchy_cdf a d \<and> cauchy_cdf a d \<le> 1)
   \<and> t_cdf cauchy_cdf (Fin 0) (Fin 1) = Fin (1 / 2)
   \<and> Fin 1 = Fin (wrapped_p_value ''two-sided'' (1 / 2))
   \<and> 0 \<le> wrapped_p_value ''two-sided'' (1 / 2) \<and> wrapped_p_value ''two-sided'' (1 / 2) \<le> 1"
proof -
  have c: "t_cdf cauchy_cdf (Fin 0) (Fin 1) = Fin (1 / 2)"
    by (simp add: t_cdf_def cauchy_cdf_def)
  show ?thesis
    using ttest_p_value_steps [OF init_pm1 cauchy_cdf_range] init_pm1 cauchy_cdf_range c
    by simp
qed

section \<open>The paired t-test of a vector with itself\<close>

lemma sample_stats_zeros:
  "n \<noteq> 0 \<Longrightarrow> sample_stats_of (replicate n 0) = \<lparr>obs = int n, variance = Fin 0, mean = Fin 0\<rparr>"
  by (simp add: sample_stats_of_def Let_def)

lemma paired_same: "paired y y = Inr (replicate (length y) 0)"
  by (simp add: paired_def map_replicate_const [symmetric] zip_same_conv_map comp_def)

text \<open>
  C5 as stated fails: for \<open>y = [1, 2]\<close> the paired test of \<open>y\<close> with itself is constructed,
  but its statistic and its p-value are NaN, not 0 and 1.
\<close>

theorem paired_identical_pair:
  "map_sum id tt_t_statistic
       (tTest_init cauchy_cdf [1, 2] (Some [1, 2]) None False True ''two-sided'' (1 / 20))
     = Inr NaN
   \<and> map_sum id tt_p_value
       (tTest_init cauchy_cdf [1, 2] (Some [1, 2]) None False True ''two-sided'' (1 / 20))
     = Inr NaN
   \<and> NaN \<noteq> Fin 0 \<and> NaN \<noteq> Fin 1"
  by (simp add: tTest_init_def paired_def sample_stats_of_def np_sum_def tTest_fit_def
        degrees_of_freedom_def test_statistic_def pvalue_def t_cdf_def Let_def)

text \<open>
  C5, amended. For every non-empty vector \<open>y\<close>, constructing the paired two-sided t-test
  with \<open>y1 = y2 = y\<close> raises no error; the differences are all zero, so their mean and
  variance are 0 and there are \<open>n - 1\<close> degrees of freedom; the statistic is the numpy
  division \<open>0 / 0\<close>, that is NaN, and the p-value computed from it is NaN.
\<close>

theorem paired_identical_vectors:
  "y \<noteq> [] \<Longrightarrow>
   \<exists>t. tTest_init F y (Some y) None var_equal True ''two-sided'' alpha = Inr t
      \<and> tt_y1 (tt_self t) = replicate (length y) 0
      \<and> tt_stats1 (tt_self t) = \<lparr>obs = int (length y), variance = Fin 0, mean = Fin 0\<rparr>
      \<and> tt_parameter t = Fin (real (length y) - 1)
      \<and> tt_t_statistic t = NaN
      \<and> tt_p_value t = NaN"
proof -
  assume "y \<noteq> []"
  then have n: "length y \<noteq> 0" by simp
  show ?thesis
    using n
    by (simp add: tTest_init_def paired_same sample_stats_zeros [OF n] tTest_fit_def
        degrees_of_freedom_def test_statistic_def pvalue_def t_cdf_def Let_def
        split: npfloat.splits)
qed

theorem paired_identical_vectors_witness:
  "[3 :: real] \<noteq> []
   \<and> map_sum id tt_t_statistic (tTest_init cauchy_cdf [3] (Some [3]) None False True ''two-sided'' (1 / 20)) = Inr NaN"
  using paired_identical_vectors [of "[3]" cauchy_cdf False "1 / 20"] by auto

section \<open>The exact binomial p-value\<close>

lemma BinomialTest_init_Inr:
  "BinomialTest_init fp norm_ppf beta_ppf n x p alternative alpha continuity = Inr t \<Longrightarrow>
   x \<le> n \<and> p \<le> 1 \<and> n \<noteq> 0
   \<and> alternative \<in> set [''two-sided'', ''greater'', ''lesser'']
   \<and> bt_self t = \<lparr>bt_n = n, bt_x = x, bt_p = p, bt_q = fsub fp (Fin 1) (Fin p),
                   bt_alpha = alpha, bt_alternative = alternative,
                   bt_continuity = continuity\<rparr>
   \<and> p_value fp (bt_self t) = Inr (bt_p_value t)
   \<and> bt_z t = norm_ppf (fsub fp (Fin 1) (fdiv fp (Fin alpha) (Fin 2)))
   \<and> wilson_score_interval fp (bt_self t) (bt_z t) = Inr (bt_wilson_score_interval t)"
  unfolding BinomialTest_init_def Let_def
  by (auto simp: clopper_pearson_interval_def split: if_splits sum.splits npfloat.splits)



lemma exact_ops [simp]:
  "fl exact_float64 = Fin" "array_sum exact_float64 = np_sum"
  "np_pow exact_float64 (Fin b) k = np_power b k"
  "py_pow exact_float64 (Fin b) k = Inr (np_power b k)"
  "binom exact_float64 N k = Fin (real (nat N choose nat k))"
  by (simp_all add: exact_float64_def)

lemma exact_arith [simp]:
  "fadd exact_float64 (Fin a) (Fin b) = Fin (a + b)"
  "fsub exact_float64 (Fin a) (Fin b) = Fin (a - b)"
  "fmul exact_float64 (Fin a) (Fin b) = Fin (a * b)"
  "b \<noteq> 0 \<Longrightarrow> fdiv exact_float64 (Fin a) (Fin b) = Fin (a / b)"
  "0 \<le> a \<Longrightarrow> fsqrt exact_float64 (Fin a) = Fin (sqrt a)"
  by (simp_all add: fadd_def fsub_def fmul_def fdiv_def fsqrt_def rounded_def)

text \<open>
  Without rounding the computed probability is the binomial probability.
\<close>

lemma computed_pmf_exact_float64:
  "0 \<le> k \<Longrightarrow> k \<le> n \<Longrightarrow> computed_pmf exact_float64 n p k = Fin (binomial_pmf n p k)"
  by (simp add: computed_pmf_def comb_def np_power_def binomial_pmf_def)



section \<open>The Wilson score interval\<close>

lemma wilson_ignores_x:
  "wilson_score_interval fp (self\<lparr>bt_x := x', bt_alternative := a'\<rparr>) z
     = wilson_score_interval fp self z"
  by (simp add: wilson_score_interval_def wilson_radicand_def Let_def split: npfloat.split)

text \<open>
  C9. Two constructed binomial tests with the same n, p, alpha and continuity flag have
  the same Wilson score interval (point estimate, lower and upper bound), whatever their
  numbers of successes (and their alternatives) are.
\<close>

theorem wilson_independent_of_successes:
  assumes "BinomialTest_init fp norm_ppf beta_ppf n x1 p alternative1 alpha continuity = Inr t1"
    and "BinomialTest_init fp norm_ppf beta_ppf n x2 p alternative2 alpha continuity = Inr t2"
  shows "bt_wilson_score_interval t1 = bt_wilson_score_interval t2"
proof -
  note i1 = BinomialTest_init_Inr [OF assms(1)] and i2 = BinomialTest_init_Inr [OF assms(2)]
  have w1: "wilson_score_interval fp (bt_self t1) (bt_z t1) = Inr (bt_wilson_score_interval t1)"
    using i1 by blast
  have w2: "wilson_score_interval fp (bt_self t2) (bt_z t2) = Inr (bt_wilson_score_interval t2)"
    using i2 by blast
  have s: "bt_self t1 = (bt_self t2)\<lparr>bt_x := x1, bt_alternative := alternative1\<rparr>"
    using i1 i2 by simp
  have z: "bt_z t1 = bt_z t2" using i1 i2 by simp
  have "wilson_score_interval fp (bt_self t1) (bt_z t1)
          = wilson_score_interval fp (bt_self t2) (bt_z t2)"
    by (simp only: s z wilson_ignores_x)
  with w1 w2 show ?thesis by simp
qed

lemma init_example:
  "\<exists>t. BinomialTest_init exact_float64 (\<lambda>q. Fin 2) (\<lambda>q a b. Fin (1 / 2)) 10 x (1 / 2)
          alternative (1 / 20) True = Inr t"
  if "x \<in> {3, 7}" "alternative \<in> {''two-sided'', ''greater''}"
  using that
  by (auto simp add: BinomialTest_init_def p_value_def clopper_pearson_interval_def
        wilson_score_interval_def wilson_radicand_def Let_def np_power_def comb_def
        split: sum.splits)

theorem wilson_independent_of_successes_witness:
  "map_sum id bt_wilson_score_interval
      (BinomialTest_init exact_float64 (\<lambda>q. Fin 2) (\<lambda>q a b. Fin (1 / 2)) 10 3 (1 / 2) ''two-sided'' (1 / 20) True)
   = map_sum id bt_wilson_score_interval
      (BinomialTest_init exact_float64 (\<lambda>q. Fin 2) (\<lambda>q a b. Fin (1 / 2)) 10 7 (1 / 2) ''greater'' (1 / 20) True)
   \<and> \<not> isl (BinomialTest_init exact_float64 (\<lambda>q. Fin 2) (\<lambda>q a b. Fin (1 / 2)) 10 3 (1 / 2) ''two-sided'' (1 / 20) True)
   \<and> \<not> isl (BinomialTest_init exact_float64 (\<lambda>q. Fin 2) (\<lambda>q a b. Fin (1 / 2)) 10 7 (1 / 2) ''greater'' (1 / 20) True)"
proof -
  obtain t1 where t1: "BinomialTest_init exact_float64 (\<lambda>q. Fin 2) (\<lambda>q a b. Fin (1 / 2)) 10 3 (1 / 2) ''two-sided'' (1 / 20) True = Inr t1"
    using init_example [of 3 "''two-sided''"] by auto
  obtain t2 where t2: "BinomialTest_init exact_float64 (\<lambda>q. Fin 2) (\<lambda>q a b. Fin (1 / 2)) 10 7 (1 / 2) ''greater'' (1 / 20) True = Inr t2"
    using init_example [of 7 "''greater''"] by auto
  from wilson_independent_of_successes [OF t1 t2] show ?thesis
    by (simp add: t1 t2)
qed

subsection \<open>The bounds of the Wilson score interval\<close>










lemma rounded_NaN [simp]: "rounded fp NaN = NaN"
  by (simp add: rounded_def)

lemma times_NaN [simp]: "a * NaN = NaN"
  by (cases a) simp_all

lemma plus_NaN [simp]: "a + NaN = NaN"
  by (cases a) simp_all

lemma divide_NaN [simp]: "NaN / a = NaN"
  by simp



lemma rounded_exact [simp]: "rounded exact_float64 v = v"
  by (cases v) (simp_all add: rounded_def)




end
